theory Spec2Isabelle
  imports Main "HOL-Library.Word"
begin

unbundle bit_operations_syntax

section \<open>Values of the program\<close>

text \<open>
  The script \<^verbatim>\<open>kc-compat.py\<close> is a linear check-and-report program. Its functions are
  embedded here one by one, under the names they have in the source. Text (Python
  \<^verbatim>\<open>str\<close>) is a \<^typ>\<open>string\<close>, whose characters stand for the code points below 256;
  raw file contents (Python \<^verbatim>\<open>bytes\<close>) are lists of 8-bit words.
\<close>

type_synonym byte = "8 word"
type_synonym bytes = "byte list"
type_synonym u32 = "32 word"

text \<open>
  Exceptions are values. The constructors are the classes that the handlers of the
  source tell apart: \<^verbatim>\<open>HTTPError\<close> with its \<^verbatim>\<open>code\<close>, \<^verbatim>\<open>URLError\<close> with the text of its
  \<^verbatim>\<open>reason\<close>, any other \<^verbatim>\<open>OSError\<close> (\<^verbatim>\<open>IOError\<close> is the same class) with its message,
  and any other \<^verbatim>\<open>Exception\<close> with its message. In the library \<^verbatim>\<open>HTTPError\<close> is a
  subclass of \<^verbatim>\<open>URLError\<close>, which is a subclass of \<^verbatim>\<open>OSError\<close>.
\<close>

datatype exn =
    HTTPError int
  | URLError string
  | OSError string
  | OtherException string

fun isinstance_OSError :: "exn \<Rightarrow> bool" where
  "isinstance_OSError (HTTPError code) = True"
| "isinstance_OSError (URLError reason) = True"
| "isinstance_OSError (OSError msg) = True"
| "isinstance_OSError (OtherException msg) = False"

text \<open>
  An opened text file: the lines that iterating over it yields (each with its line
  end), and the exception that ends the reading early, if one does.
\<close>

datatype text_file = TextFile "string list" "exn option"

text \<open>
  Everything the script reads from outside: \<^verbatim>\<open>os.path.exists\<close>, \<^verbatim>\<open>open(path)\<close> in text
  mode, \<^verbatim>\<open>open(path, 'rb')\<close> followed by \<^verbatim>\<open>read()\<close>, \<^verbatim>\<open>urlopen\<close> (which returns a
  response or raises), and the library's total decoder
  \<^verbatim>\<open>bytes.decode('utf-8', errors='replace')\<close>, whose replacement character is not a
  \<^typ>\<open>char\<close> and which is therefore a parameter.
\<close>

record env =
  path_exists :: "string \<Rightarrow> bool"
  open_text :: "string \<Rightarrow> exn + text_file"
  open_rb_read :: "string \<Rightarrow> exn + bytes"
  urlopen :: "string \<Rightarrow> exn + unit"
  decode_utf8_replace :: "bytes \<Rightarrow> string"

fun read_all :: "text_file \<Rightarrow> exn + string" where
  "read_all (TextFile ls None) = Inr (concat ls)"
| "read_all (TextFile ls (Some e)) = Inl e"

section \<open>String operations of the Python library\<close>

text \<open>\<^verbatim>\<open>str.isspace\<close> on the code points below 256.\<close>

definition py_isspace :: "char \<Rightarrow> bool" where
  "py_isspace c =
     (let n = (of_char c :: nat)
      in (9 \<le> n \<and> n \<le> 13) \<or> (28 \<le> n \<and> n \<le> 32) \<or> n = 133 \<or> n = 160)"

definition strip_where :: "(char \<Rightarrow> bool) \<Rightarrow> string \<Rightarrow> string" where
  "strip_where p s = rev (dropWhile p (rev (dropWhile p s)))"

text \<open>\<^verbatim>\<open>s.strip()\<close> and \<^verbatim>\<open>s.strip('"\'')\<close>.\<close>

definition py_strip :: "string \<Rightarrow> string" where
  "py_strip s = strip_where py_isspace s"

definition is_quote :: "char \<Rightarrow> bool" where
  "is_quote c = (c = CHR 0x22 \<or> c = CHR 0x27)"

definition strip_quotes :: "string \<Rightarrow> string" where
  "strip_quotes s = strip_where is_quote s"

definition startswith :: "string \<Rightarrow> string \<Rightarrow> bool" where
  "startswith s p = (take (length p) s = p)"

text \<open>\<^verbatim>\<open>sub in s\<close> on strings.\<close>

fun contains :: "string \<Rightarrow> string \<Rightarrow> bool" where
  "contains sub [] = (sub = [])"
| "contains sub (c # cs) = (startswith (c # cs) sub \<or> contains sub cs)"

text \<open>\<^verbatim>\<open>s.split('=', 1)\<close>: one piece when there is no \<^verbatim>\<open>=\<close>, two otherwise.\<close>

definition split_eq1 :: "string \<Rightarrow> string list" where
  "split_eq1 s =
     (case dropWhile (\<lambda>c. c \<noteq> CHR ''='') s of
        [] \<Rightarrow> [s]
      | c # rest \<Rightarrow> [takeWhile (\<lambda>c. c \<noteq> CHR ''='') s, rest])"

text \<open>\<^verbatim>\<open>xs[i]\<close> for a non-negative index: out of range raises \<^verbatim>\<open>IndexError\<close>.\<close>

definition index :: "'a list \<Rightarrow> nat \<Rightarrow> exn + 'a" where
  "index xs i =
     (if i < length xs then Inr (xs ! i) else Inl (OtherException ''list index out of range''))"

text \<open>\<^verbatim>\<open>x or default\<close> on an optional string: \<^verbatim>\<open>None\<close> and the empty string are false.\<close>

fun truthy :: "string option \<Rightarrow> bool" where
  "truthy None = False"
| "truthy (Some s) = (s \<noteq> [])"

fun or_else :: "string option \<Rightarrow> string \<Rightarrow> string" where
  "or_else None d = d"
| "or_else (Some s) d = (if s = [] then d else s)"

text \<open>\<^verbatim>\<open>"%d" % n\<close>: the decimal digits of an integer.\<close>

function decimal :: "nat \<Rightarrow> string" where
  "decimal n =
     (if n < 10 then [''0123456789'' ! n]
      else decimal (n div 10) @ [''0123456789'' ! (n mod 10)])"
  by pat_completeness auto
termination
  by (relation "measure id") auto

definition format_d :: "int \<Rightarrow> string" where
  "format_d i = (if i < 0 then CHR ''-'' # decimal (nat (- i)) else decimal (nat i))"

section \<open>The digest of \<^verbatim>\<open>hashlib.sha1\<close>\<close>

text \<open>
  \<^verbatim>\<open>get_kernel_hash_from_data\<close> calls the library's SHA-1. The function is written out
  here as the standard defines it: padding to a multiple of 64 bytes (a \<^verbatim>\<open>0x80\<close> byte,
  zero bytes, the bit length as a big-endian 64-bit number), the message schedule of
  80 words for each block, 80 rounds on five 32-bit words, and the digest printed as
  lowercase hexadecimal.
\<close>

definition rotl :: "nat \<Rightarrow> u32 \<Rightarrow> u32" where
  "rotl n x = push_bit n x OR drop_bit (32 - n) x"

definition be64 :: "64 word \<Rightarrow> bytes" where
  "be64 n = map (\<lambda>i. ucast (drop_bit (8 * i) n)) [7, 6, 5, 4, 3, 2, 1, 0]"

definition sha1_pad :: "bytes \<Rightarrow> bytes" where
  "sha1_pad m =
     m @ [0x80] @ replicate ((119 - length m mod 64) mod 64) 0 @ be64 (of_nat (8 * length m))"

function blocks :: "bytes \<Rightarrow> bytes list" where
  "blocks bs = (if bs = [] then [] else take 64 bs # blocks (drop 64 bs))"
  by pat_completeness auto
termination
  by (relation "measure length") auto

fun be32s :: "bytes \<Rightarrow> u32 list" where
  "be32s (a # b # c # d # bs) =
     (push_bit 24 (ucast a) OR push_bit 16 (ucast b) OR push_bit 8 (ucast c) OR ucast d)
       # be32s bs"
| "be32s bs = []"

primrec extend :: "nat \<Rightarrow> u32 list \<Rightarrow> u32 list" where
  "extend 0 w = w"
| "extend (Suc n) w =
     (let t = length w
      in extend n
           (w @ [rotl 1 (w ! (t - 3) XOR w ! (t - 8) XOR w ! (t - 14) XOR w ! (t - 16))]))"

type_synonym sha1_state = "u32 \<times> u32 \<times> u32 \<times> u32 \<times> u32"

definition sha1_f :: "nat \<Rightarrow> u32 \<Rightarrow> u32 \<Rightarrow> u32 \<Rightarrow> u32" where
  "sha1_f t b c d =
     (if t < 20 then (b AND c) OR (NOT b AND d)
      else if t < 40 then b XOR c XOR d
      else if t < 60 then (b AND c) OR (b AND d) OR (c AND d)
      else b XOR c XOR d)"

definition sha1_k :: "nat \<Rightarrow> u32" where
  "sha1_k t =
     (if t < 20 then 0x5A827999 else if t < 40 then 0x6ED9EBA1
      else if t < 60 then 0x8F1BBCDC else 0xCA62C1D6)"

fun sha1_round :: "u32 list \<Rightarrow> nat \<Rightarrow> sha1_state \<Rightarrow> sha1_state" where
  "sha1_round w t (a, b, c, d, e) =
     (rotl 5 a + sha1_f t b c d + e + sha1_k t + w ! t, a, rotl 30 b, c, d)"

fun sha1_compress :: "bytes \<Rightarrow> sha1_state \<Rightarrow> sha1_state" where
  "sha1_compress blk (h0, h1, h2, h3, h4) =
     (case fold (sha1_round (extend 64 (be32s blk))) [0..<80] (h0, h1, h2, h3, h4) of
        (a, b, c, d, e) \<Rightarrow> (h0 + a, h1 + b, h2 + c, h3 + d, h4 + e))"

definition sha1 :: "bytes \<Rightarrow> sha1_state" where
  "sha1 m =
     fold sha1_compress (blocks (sha1_pad m))
       (0x67452301, 0xEFCDAB89, 0x98BADCFE, 0x10325476, 0xC3D2E1F0)"

definition hexdigit :: "u32 \<Rightarrow> char" where
  "hexdigit n = ''0123456789abcdef'' ! unat (n AND 0xF)"

definition hex32 :: "u32 \<Rightarrow> string" where
  "hex32 w = map (\<lambda>i. hexdigit (drop_bit (4 * i) w)) [7, 6, 5, 4, 3, 2, 1, 0]"

fun hexdigest :: "sha1_state \<Rightarrow> string" where
  "hexdigest (h0, h1, h2, h3, h4) = hex32 h0 @ hex32 h1 @ hex32 h2 @ hex32 h3 @ hex32 h4"

section \<open>The functions of \<^verbatim>\<open>kc-compat.py\<close>\<close>

definition SUPPORTED_DISTROS :: "string set" where
  "SUPPORTED_DISTROS =
     {''almalinux'', ''amzn'', ''centos'', ''cloudlinux'', ''debian'', ''ol'', ''raspbian'',
      ''rhel'', ''rocky'', ''ubuntu'', ''proxmox''}"

definition get_kernel_hash_from_data :: "bytes \<Rightarrow> string" where
  "get_kernel_hash_from_data version_data = hexdigest (sha1 version_data)"

definition inside_vz_container :: "env \<Rightarrow> bool" where
  "inside_vz_container env =
     (path_exists env ''/proc/vz/veinfo'' \<and> \<not> path_exists env ''/proc/vz/version'')"

text \<open>\<^verbatim>\<open>'/lxc/' in open('/proc/1/cgroup').read()\<close>, with no handler around it.\<close>

definition inside_lxc_container :: "env \<Rightarrow> exn + bool" where
  "inside_lxc_container env =
     (case open_text env ''/proc/1/cgroup'' of
        Inl e \<Rightarrow> Inl e
      | Inr f \<Rightarrow> (case read_all f of Inl e \<Rightarrow> Inl e | Inr s \<Rightarrow> Inr (contains ''/lxc/'' s)))"

definition parse_value :: "string \<Rightarrow> exn + string" where
  "parse_value line =
     (case index (split_eq1 line) 1 of
        Inl e \<Rightarrow> Inl e
      | Inr v \<Rightarrow> Inr (strip_quotes (py_strip v)))"

text \<open>The loop \<^verbatim>\<open>for line in f\<close> of \<^verbatim>\<open>get_distro_info\<close>, on the lines still to come.\<close>

fun scan_lines ::
  "string list \<Rightarrow> string option \<times> string option \<Rightarrow> exn + (string option \<times> string option)"
where
  "scan_lines [] (distro_name, distro_version) = Inr (distro_name, distro_version)"
| "scan_lines (l # ls) (distro_name, distro_version) =
     (let line = py_strip l
      in if startswith line ''ID='' then
           (case parse_value line of
              Inl e \<Rightarrow> Inl e
            | Inr v \<Rightarrow> scan_lines ls (Some v, distro_version))
         else if startswith line ''VERSION_ID='' then
           (case parse_value line of
              Inl e \<Rightarrow> Inl e
            | Inr v \<Rightarrow> scan_lines ls (distro_name, Some v))
         else scan_lines ls (distro_name, distro_version))"

text \<open>\<^verbatim>\<open>try: ... except (IOError, OSError): return default\<close>.\<close>

definition except_OSError :: "exn + 'a \<Rightarrow> 'a \<Rightarrow> exn + 'a" where
  "except_OSError r fallback =
     (case r of
        Inl e \<Rightarrow> (if isinstance_OSError e then Inr fallback else Inl e)
      | Inr v \<Rightarrow> Inr v)"

definition get_distro_info :: "env \<Rightarrow> exn + (string option \<times> string option)" where
  "get_distro_info env =
     (let os_release_path = ''/etc/os-release''
      in if \<not> path_exists env os_release_path then Inr (None, None)
         else except_OSError
                (case open_text env os_release_path of
                   Inl e \<Rightarrow> Inl e
                 | Inr (TextFile ls failure) \<Rightarrow>
                     (case scan_lines ls (None, None) of
                        Inl e \<Rightarrow> Inl e
                      | Inr r \<Rightarrow> (case failure of Some e \<Rightarrow> Inl e | None \<Rightarrow> Inr r)))
                (None, None))"

definition is_distro_supported :: "string \<Rightarrow> bool" where
  "is_distro_supported distro_name = (distro_name \<in> SUPPORTED_DISTROS)"

definition is_compat :: "env \<Rightarrow> string \<Rightarrow> exn + bool" where
  "is_compat env kernel_hash =
     (let url = ''http://patches.kernelcare.com/'' @ kernel_hash @ ''/version''
      in case urlopen env url of
           Inr response \<Rightarrow> Inr True
         | Inl (HTTPError code) \<Rightarrow> (if code = 404 then Inr False else Inl (HTTPError code))
         | Inl e \<Rightarrow> Inl e)"

text \<open>Printing is the list of the lines printed.\<close>

definition myprint :: "bool \<Rightarrow> string \<Rightarrow> string list" where
  "myprint silent message = (if \<not> silent then [message] else [])"

definition support_message_supported :: string where
  "support_message_supported =
     ''We support your distribution, but we'' @ [CHR 0x27] @ ''re having trouble detecting your precise kernel configuration. Please, contact CloudLinux Inc. support by email at support@cloudlinux.com or by request form at https://www.cloudlinux.com/index.php/support''"

definition support_message_generic :: string where
  "support_message_generic =
     ''Please contact CloudLinux Inc. support by email at support@cloudlinux.com or by request form at https://www.cloudlinux.com/index.php/support''"

text \<open>The two flags of \<^verbatim>\<open>main\<close>, computed from \<^verbatim>\<open>sys.argv\<close>.\<close>

definition silent_flag :: "string list \<Rightarrow> bool" where
  "silent_flag argv = (length argv > 1 \<and> (argv ! 1 = ''--silent'' \<or> argv ! 1 = ''-q''))"

definition report_flag :: "string list \<Rightarrow> bool" where
  "report_flag argv = (length argv > 1 \<and> argv ! 1 = ''--report'')"

text \<open>\<^verbatim>\<open>inside_vz_container() or inside_lxc_container()\<close>: the second is run only
  when the first is false.\<close>

definition inside_container :: "env \<Rightarrow> exn + bool" where
  "inside_container env =
     (if inside_vz_container env then Inr True else inside_lxc_container env)"

text \<open>The read of \<^verbatim>\<open>/proc/version\<close> in \<^verbatim>\<open>main\<close>, with its handler.\<close>

definition read_version_data :: "env \<Rightarrow> exn + bytes" where
  "read_version_data env = except_OSError (open_rb_read env ''/proc/version'') []"

text \<open>The six \<^verbatim>\<open>print\<close> calls under \<^verbatim>\<open>if report\<close>.\<close>

definition report_block ::
  "env \<Rightarrow> string \<Rightarrow> string option \<Rightarrow> string option \<Rightarrow> bytes \<Rightarrow> string list" where
  "report_block env kernel_hash distro_name distro_version version_data =
     [''=== KernelCare Compatibility Report ==='',
      ''Kernel Hash: '' @ kernel_hash,
      ''Distribution: '' @ or_else distro_name ''Unknown'',
      ''Version: '' @ or_else distro_version ''Unknown'',
      ''Kernel: '' @ py_strip (decode_utf8_replace env version_data),
      ''====================================='']"

text \<open>\<^verbatim>\<open>distro_name and is_distro_supported(distro_name)\<close>.\<close>

fun name_and_supported :: "string option \<Rightarrow> bool" where
  "name_and_supported None = False"
| "name_and_supported (Some distro_name) =
     (distro_name \<noteq> [] \<and> is_distro_supported distro_name)"

text \<open>The last \<^verbatim>\<open>try\<close> block of \<^verbatim>\<open>main\<close> with its four handlers: the lines printed and
  the value returned.\<close>

definition check_and_print ::
  "env \<Rightarrow> bool \<Rightarrow> string \<Rightarrow> string option \<Rightarrow> string list \<times> int" where
  "check_and_print env silent kernel_hash distro_name =
     (case is_compat env kernel_hash of
        Inr True \<Rightarrow> (myprint silent ''COMPATIBLE'', 0)
      | Inr False \<Rightarrow>
          (if name_and_supported distro_name then
             (myprint silent ''NEEDS REVIEW'' @ myprint silent support_message_supported, 1)
           else
             (myprint silent ''NEEDS REVIEW'' @ myprint silent support_message_generic, 1))
      | Inl (HTTPError code) \<Rightarrow>
          (myprint silent (''CONNECTION ERROR; HTTP '' @ format_d code), 3)
      | Inl (URLError reason) \<Rightarrow> (myprint silent (''CONNECTION ERROR; '' @ reason), 3)
      | Inl (OSError msg) \<Rightarrow> (myprint silent (''SYSTEM ERROR; '' @ msg), 4)
      | Inl (OtherException msg) \<Rightarrow> (myprint silent (''UNEXPECTED ERROR; '' @ msg), 5))"

text \<open>
  \<^verbatim>\<open>main\<close>: the lines printed, and either the exception that leaves \<^verbatim>\<open>main\<close> or the
  value it returns, which is the exit code of the process.
\<close>

definition main :: "env \<Rightarrow> string list \<Rightarrow> string list \<times> (exn + int)" where
  "main env argv =
     (let silent = silent_flag argv;
          report = report_flag argv
      in case inside_container env of
           Inl e \<Rightarrow> ([], Inl e)
         | Inr True \<Rightarrow> (myprint silent ''UNSUPPORTED; INSIDE CONTAINER'', Inr 2)
         | Inr False \<Rightarrow>
             (case read_version_data env of
                Inl e \<Rightarrow> ([], Inl e)
              | Inr version_data \<Rightarrow>
                  (let kernel_hash = get_kernel_hash_from_data version_data
                   in case get_distro_info env of
                        Inl e \<Rightarrow> ([], Inl e)
                      | Inr (distro_name, distro_version) \<Rightarrow>
                          (let printed =
                                 (if report
                                  then report_block env kernel_hash distro_name
                                         distro_version version_data
                                  else []);
                               (verdict, code) =
                                 check_and_print env silent kernel_hash distro_name
                           in (printed @ verdict, Inr code)))))"

section \<open>Example environments\<close>

text \<open>
  A host that is no container: no Virtuozzo marker, a control-group file without the
  LXC segment, an empty \<^verbatim>\<open>/proc/version\<close>, an OS-release file of CentOS 7, and a
  patch server that answers the request. Bytes below 128 decode to their character.
\<close>

definition host_files :: "string \<Rightarrow> exn + text_file" where
  "host_files p =
     (if p = ''/proc/1/cgroup'' then Inr (TextFile [''0::/init.scope'' @ [CHR 0x0A]] None)
      else if p = ''/etc/os-release''
        then Inr (TextFile [''ID=centos'' @ [CHR 0x0A],
                            ''VERSION_ID='' @ [CHR 0x22] @ ''7'' @ [CHR 0x22, CHR 0x0A]] None)
      else Inl (OSError ''No such file or directory''))"

definition host_env :: env where
  "host_env =
     \<lparr> path_exists = (\<lambda>p. p = ''/etc/os-release''),
       open_text = host_files,
       open_rb_read = (\<lambda>p. if p = ''/proc/version'' then Inr []
                           else Inl (OSError ''No such file or directory'')),
       urlopen = (\<lambda>url. Inr ()),
       decode_utf8_replace = map (\<lambda>b. if b < 0x80 then char_of (unat b) else CHR ''?'') \<rparr>"

text \<open>The same host when the server answers 404, 500, or cannot be reached.\<close>

definition host_404 :: env where
  "host_404 = host_env \<lparr> urlopen := (\<lambda>url. Inl (HTTPError 404)) \<rparr>"

definition host_500 :: env where
  "host_500 = host_env \<lparr> urlopen := (\<lambda>url. Inl (HTTPError 500)) \<rparr>"

definition host_unreachable :: env where
  "host_unreachable = host_env \<lparr> urlopen := (\<lambda>url. Inl (URLError ''Connection refused'')) \<rparr>"

definition host_io_error :: env where
  "host_io_error = host_env \<lparr> urlopen := (\<lambda>url. Inl (OSError ''Disk error'')) \<rparr>"

definition host_unexpected :: env where
  "host_unexpected = host_env \<lparr> urlopen := (\<lambda>url. Inl (OtherException ''Unexpected error'')) \<rparr>"

text \<open>A Virtuozzo guest, an LXC guest, and a host without \<^verbatim>\<open>/proc/1/cgroup\<close>.\<close>

definition vz_guest :: env where
  "vz_guest = host_env \<lparr> path_exists := (\<lambda>p. p = ''/proc/vz/veinfo'') \<rparr>"

definition lxc_guest :: env where
  "lxc_guest =
     host_env \<lparr> open_text := (\<lambda>p. if p = ''/proc/1/cgroup''
                                   then Inr (TextFile [''1:name=systemd:/lxc/web'' @ [CHR 0x0A]] None)
                                   else host_files p) \<rparr>"

definition no_cgroup_env :: env where
  "no_cgroup_env =
     host_env \<lparr> open_text := (\<lambda>p. if p = ''/proc/1/cgroup''
                                   then Inl (OSError ''No such file or directory'')
                                   else host_files p) \<rparr>"

text \<open>A Virtuozzo hardware node: both markers exist.\<close>

definition vz_node :: env where
  "vz_node =
     host_env \<lparr> path_exists := (\<lambda>p. p = ''/proc/vz/veinfo'' \<or> p = ''/proc/vz/version'') \<rparr>"

text \<open>The host with another content of \<^verbatim>\<open>/etc/os-release\<close>, or with none that opens.\<close>

definition release_env :: "exn + text_file \<Rightarrow> env" where
  "release_env f =
     host_env \<lparr> open_text := (\<lambda>p. if p = ''/etc/os-release'' then f else host_files p) \<rparr>"

definition doubly_quoted_release :: env where
  "doubly_quoted_release =
     release_env
       (Inr (TextFile [''ID='' @ [CHR 0x22, CHR 0x22] @ ''centos'' @ [CHR 0x22, CHR 0x22, CHR 0x0A]]
          None))"

definition repeated_release :: env where
  "repeated_release =
     release_env
       (Inr (TextFile [''ID=debian'' @ [CHR 0x0A],
                       ''  VERSION_ID= '' @ [CHR 0x27] @ ''12'' @ [CHR 0x27, CHR 0x0A],
                       ''ID=ubuntu'' @ [CHR 0x0A]] None))"

definition unreadable_release :: env where
  "unreadable_release = release_env (Inl (OSError ''Permission denied''))"

definition failing_release :: env where
  "failing_release =
     release_env
       (Inr (TextFile [''ID=debian'' @ [CHR 0x0A]] (Some (OSError ''Input/output error''))))"


text \<open>The host whose \<^verbatim>\<open>/etc/os-release\<close> opens but does not decode: the first read raises
  \<^verbatim>\<open>UnicodeDecodeError\<close>, which is no \<^verbatim>\<open>OSError\<close>.\<close>

definition undecodable_release :: env where
  "undecodable_release =
     release_env
       (Inr (TextFile []
          (Some (OtherException
             ([CHR 0x27] @ ''utf-8'' @ [CHR 0x27] @ '' codec can'' @ [CHR 0x27] @
              ''t decode byte 0xff in position 0: invalid start byte'')))))"

text \<open>Hosts of an unlisted distribution and of none that can be told, when the server
  answers 404.\<close>

definition gentoo_404 :: env where
  "gentoo_404 =
     release_env (Inr (TextFile [''ID=gentoo'' @ [CHR 0x0A]] None))
       \<lparr> urlopen := (\<lambda>url. Inl (HTTPError 404)) \<rparr>"

definition nameless_404 :: env where
  "nameless_404 = host_404 \<lparr> path_exists := (\<lambda>p. False) \<rparr>"

section \<open>The words of the specification on OS-release values\<close>

text \<open>
  What the specification says of a value: a single layer of enclosing single or
  double quotes is stripped.
\<close>

definition spec_unquote_one_layer :: "string \<Rightarrow> string" where
  "spec_unquote_one_layer s =
     (if 2 \<le> length s \<and> is_quote (hd s) \<and> last s = hd s then butlast (tl s) else s)"

text \<open>
  The value that the last line beginning with \<open>key\<close> gives, if there is such a line: a
  line begins with \<open>key\<close> when it does so once trimmed; its value is what follows the
  key, trimmed of white space and then of every leading and trailing quote character.
\<close>

definition last_value :: "string \<Rightarrow> string list \<Rightarrow> string option" where
  "last_value key ls =
     (let matching = filter (\<lambda>l. startswith (py_strip l) key) ls
      in if matching = [] then None
         else Some (strip_quotes (py_strip (drop (length key) (py_strip (last matching))))))"

section \<open>The schedule of the empty message\<close>


section \<open>A kernel version string\<close>






section \<open>Facts about the embedding\<close>

lemma myprint_silent: "myprint True message = []"
  by (simp add: myprint_def)

lemma myprint_loud: "myprint False message = [message]"
  by (simp add: myprint_def)

lemma is_compat_cases:
  "is_compat env h =
     (case urlopen env (''http://patches.kernelcare.com/'' @ h @ ''/version'') of
        Inr r \<Rightarrow> Inr True
      | Inl e \<Rightarrow> if e = HTTPError 404 then Inr False else Inl e)"
  by (simp add: is_compat_def split: sum.splits exn.splits)

lemma is_compat_error_not_404: "is_compat env h = Inl e \<Longrightarrow> e \<noteq> HTTPError 404"
  by (auto simp: is_compat_cases split: sum.splits if_splits)

lemma check_and_print_silent: "fst (check_and_print env True h dn) = []"
  by (simp add: check_and_print_def myprint_silent split: sum.splits exn.splits bool.splits)

lemma check_and_print_code:
  "snd (check_and_print env s h dn) =
     (case is_compat env h of
        Inr True \<Rightarrow> 0
      | Inr False \<Rightarrow> 1
      | Inl (HTTPError code) \<Rightarrow> 3
      | Inl (URLError reason) \<Rightarrow> 3
      | Inl (OSError msg) \<Rightarrow> 4
      | Inl (OtherException msg) \<Rightarrow> 5)"
  by (simp add: check_and_print_def split: sum.splits exn.splits bool.splits)

lemma main_raises:
  "inside_container env = Inl e \<Longrightarrow> main env argv = ([], Inl e)"
  by (simp add: main_def)

lemma main_container:
  "inside_container env = Inr True \<Longrightarrow>
     main env argv = (myprint (silent_flag argv) ''UNSUPPORTED; INSIDE CONTAINER'', Inr 2)"
  by (simp add: main_def)

lemma main_version_raises:
  "inside_container env = Inr False \<Longrightarrow> read_version_data env = Inl e \<Longrightarrow>
     main env argv = ([], Inl e)"
  by (simp add: main_def)

lemma main_distro_raises:
  "inside_container env = Inr False \<Longrightarrow> read_version_data env = Inr vd \<Longrightarrow>
   get_distro_info env = Inl e \<Longrightarrow> main env argv = ([], Inl e)"
  by (simp add: main_def)

lemma main_check:
  "inside_container env = Inr False \<Longrightarrow> read_version_data env = Inr vd \<Longrightarrow>
   get_distro_info env = Inr (dn, dv) \<Longrightarrow>
     main env argv =
       ((if report_flag argv then report_block env (get_kernel_hash_from_data vd) dn dv vd else [])
          @ fst (check_and_print env (silent_flag argv) (get_kernel_hash_from_data vd) dn),
        Inr (snd (check_and_print env (silent_flag argv) (get_kernel_hash_from_data vd) dn)))"
  by (simp add: main_def Let_def split: prod.splits)

lemma flags_not_both: "silent_flag argv \<Longrightarrow> \<not> report_flag argv"
  by (auto simp: silent_flag_def report_flag_def)

lemma main_exit_any_argv: "snd (main env a) = snd (main env b)"
proof (cases "inside_container env")
  case (Inl e)
  then show ?thesis by (simp add: main_raises)
next
  case (Inr c)
  show ?thesis
  proof (cases c)
    case True
    with Inr show ?thesis by (simp add: main_container)
  next
    case False
    with Inr have nc: "inside_container env = Inr False" by simp
    show ?thesis
    proof (cases "read_version_data env")
      case (Inl e)
      with nc show ?thesis by (simp add: main_version_raises)
    next
      case vd: (Inr vd)
      show ?thesis
      proof (cases "get_distro_info env")
        case (Inl e)
        with nc vd show ?thesis by (simp add: main_distro_raises)
      next
        case (Inr d)
        obtain dn dv where "d = (dn, dv)" by (cases d)
        with Inr nc vd show ?thesis by (simp add: main_check check_and_print_code)
      qed
    qed
  qed
qed

lemma main_silent_prints_nothing: "silent_flag argv \<Longrightarrow> fst (main env argv) = []"
proof -
  assume s: "silent_flag argv"
  then have r: "\<not> report_flag argv" by (rule flags_not_both)
  show ?thesis
  proof (cases "inside_container env")
    case (Inl e)
    then show ?thesis by (simp add: main_raises)
  next
    case (Inr c)
    show ?thesis
    proof (cases c)
      case True
      with Inr s show ?thesis by (simp add: main_container myprint_silent)
    next
      case False
      with Inr have nc: "inside_container env = Inr False" by simp
      show ?thesis
      proof (cases "read_version_data env")
        case (Inl e)
        with nc show ?thesis by (simp add: main_version_raises)
      next
        case vd: (Inr vd)
        show ?thesis
        proof (cases "get_distro_info env")
          case (Inl e)
          with nc vd show ?thesis by (simp add: main_distro_raises)
        next
          case (Inr d)
          obtain dn dv where "d = (dn, dv)" by (cases d)
          with Inr nc vd s r show ?thesis by (simp add: main_check check_and_print_silent)
        qed
      qed
    qed
  qed
qed


lemma empty_name_unsupported: "[] \<notin> SUPPORTED_DISTROS"
  by (simp add: SUPPORTED_DISTROS_def)

lemma name_and_supported_iff:
  "name_and_supported dn =
     (case dn of None \<Rightarrow> False | Some distro_name \<Rightarrow> distro_name \<in> SUPPORTED_DISTROS)"
  using empty_name_unsupported
  by (cases dn) (auto simp: is_distro_supported_def)

lemma check_and_print_lines:
  "fst (check_and_print env silent h dn) =
     (if silent then []
      else case is_compat env h of
             Inr True \<Rightarrow> [''COMPATIBLE'']
           | Inr False \<Rightarrow>
               [''NEEDS REVIEW'',
                if name_and_supported dn then support_message_supported
                else support_message_generic]
           | Inl (HTTPError code) \<Rightarrow> [''CONNECTION ERROR; HTTP '' @ format_d code]
           | Inl (URLError reason) \<Rightarrow> [''CONNECTION ERROR; '' @ reason]
           | Inl (OSError msg) \<Rightarrow> [''SYSTEM ERROR; '' @ msg]
           | Inl (OtherException msg) \<Rightarrow> [''UNEXPECTED ERROR; '' @ msg])"
  by (simp add: check_and_print_def myprint_def split: sum.splits exn.splits bool.splits)

lemma report_flag_not_silent: "report_flag argv \<Longrightarrow> \<not> silent_flag argv"
  using flags_not_both by blast

lemma dropWhile_to_first:
  "c \<notin> set k \<Longrightarrow> dropWhile (\<lambda>x. x \<noteq> c) (k @ c # rest) = c # rest"
  by (induction k) auto

lemma parse_value_after_key:
  assumes "startswith line (k @ ''='')" and "CHR ''='' \<notin> set k"
  shows "parse_value line = Inr (strip_quotes (py_strip (drop (length (k @ ''='')) line)))"
proof -
  define rest where "rest = drop (length (k @ ''='')) line"
  from assms(1) have "take (length (k @ ''='')) line = k @ ''=''"
    by (simp only: startswith_def)
  then have "line = (k @ ''='') @ rest"
    unfolding rest_def by (metis append_take_drop_id)
  then have l: "line = k @ CHR ''='' # rest" by simp
  have "dropWhile (\<lambda>c. c \<noteq> CHR ''='') line = CHR ''='' # rest"
    unfolding l using assms(2) by (rule dropWhile_to_first)
  then have "split_eq1 line = [takeWhile (\<lambda>c. c \<noteq> CHR ''='') line, rest]"
    by (simp add: split_eq1_def)
  then show ?thesis by (simp add: parse_value_def index_def rest_def)
qed

lemma parse_value_ID:
  "startswith line ''ID='' \<Longrightarrow>
     parse_value line = Inr (strip_quotes (py_strip (drop (length ''ID='') line)))"
  using parse_value_after_key [of line "''ID''"] by simp

lemma parse_value_VERSION_ID:
  "startswith line ''VERSION_ID='' \<Longrightarrow>
     parse_value line = Inr (strip_quotes (py_strip (drop (length ''VERSION_ID='') line)))"
  using parse_value_after_key [of line "''VERSION_ID''"] by simp

lemma startswith_keys_exclusive:
  "startswith line ''ID='' \<Longrightarrow> \<not> startswith line ''VERSION_ID=''"
  by (cases line) (auto simp: startswith_def)

lemma last_value_Nil: "last_value key [] = None"
  by (simp add: last_value_def)

lemma last_value_Cons:
  "last_value key (l # ls) =
     (case last_value key ls of
        Some v \<Rightarrow> Some v
      | None \<Rightarrow>
          if startswith (py_strip l) key
          then Some (strip_quotes (py_strip (drop (length key) (py_strip l))))
          else None)"
  by (simp add: last_value_def Let_def)


lemma scan_lines_Cons:
  "scan_lines (l # ls) (n, v) =
     (if startswith (py_strip l) ''ID=''
      then scan_lines ls (Some (strip_quotes (py_strip (drop (length ''ID='') (py_strip l)))), v)
      else if startswith (py_strip l) ''VERSION_ID=''
      then scan_lines ls
             (n, Some (strip_quotes (py_strip (drop (length ''VERSION_ID='') (py_strip l)))))
      else scan_lines ls (n, v))"
proof -
  consider (name) "startswith (py_strip l) ''ID=''"
    | (version) "\<not> startswith (py_strip l) ''ID=''" "startswith (py_strip l) ''VERSION_ID=''"
    | (other) "\<not> startswith (py_strip l) ''ID=''" "\<not> startswith (py_strip l) ''VERSION_ID=''"
    by blast
  then show ?thesis
  proof cases
    case name
    then show ?thesis using parse_value_ID [OF name] by (simp add: Let_def)
  next
    case version
    then show ?thesis using parse_value_VERSION_ID [OF version(2)] by (simp add: Let_def)
  next
    case other
    then show ?thesis by (simp add: Let_def)
  qed
qed

lemma scan_lines_last_value:
  "scan_lines ls (n, v) =
     Inr (case last_value ''ID='' ls of None \<Rightarrow> n | Some x \<Rightarrow> Some x,
          case last_value ''VERSION_ID='' ls of None \<Rightarrow> v | Some x \<Rightarrow> Some x)"
proof (induction ls arbitrary: n v)
  case Nil
  show ?case by (simp add: last_value_Nil)
next
  case (Cons l ls)
  consider (name) "startswith (py_strip l) ''ID=''" "\<not> startswith (py_strip l) ''VERSION_ID=''"
    | (version) "\<not> startswith (py_strip l) ''ID=''" "startswith (py_strip l) ''VERSION_ID=''"
    | (other) "\<not> startswith (py_strip l) ''ID=''" "\<not> startswith (py_strip l) ''VERSION_ID=''"
    using startswith_keys_exclusive by blast
  then show ?case
  proof cases
    case name
    then show ?thesis
      unfolding scan_lines_Cons Cons.IH last_value_Cons by (simp split: option.split)
  next
    case version
    then show ?thesis
      unfolding scan_lines_Cons Cons.IH last_value_Cons by (simp split: option.split)
  next
    case other
    then show ?thesis
      unfolding scan_lines_Cons Cons.IH last_value_Cons by (simp split: option.split)
  qed
qed

subsection \<open>The example environments\<close>

lemma urlopen_update_container [simp]:
  "inside_container (env \<lparr> urlopen := u \<rparr>) = inside_container env"
  by (simp add: inside_container_def inside_vz_container_def inside_lxc_container_def)

lemma urlopen_update_version [simp]:
  "read_version_data (env \<lparr> urlopen := u \<rparr>) = read_version_data env"
  by (simp add: read_version_data_def)

lemma urlopen_update_distro [simp]:
  "get_distro_info (env \<lparr> urlopen := u \<rparr>) = get_distro_info env"
  by (simp add: get_distro_info_def Let_def)

lemma host_not_in_container: "inside_container host_env = Inr False"
  by (simp add: inside_container_def inside_vz_container_def inside_lxc_container_def
      host_env_def host_files_def startswith_def)

lemma host_version_data: "read_version_data host_env = Inr []"
  by (simp add: read_version_data_def host_env_def except_OSError_def)

lemma host_distro_info: "get_distro_info host_env = Inr (Some ''centos'', Some ''7'')"
  by (simp add: get_distro_info_def host_env_def host_files_def except_OSError_def
      startswith_def parse_value_def index_def split_eq1_def py_strip_def strip_quotes_def
      strip_where_def py_isspace_def is_quote_def)

lemma vz_guest_in_container: "inside_container vz_guest = Inr True"
  by (simp add: inside_container_def inside_vz_container_def vz_guest_def host_env_def)

lemma lxc_guest_in_container: "inside_container lxc_guest = Inr True"
  by (simp add: inside_container_def inside_vz_container_def inside_lxc_container_def
      lxc_guest_def host_env_def host_files_def startswith_def)

lemma is_compat_const:
  "is_compat (env \<lparr> urlopen := (\<lambda>url. r) \<rparr>) h =
     (case r of Inr x \<Rightarrow> Inr True | Inl e \<Rightarrow> if e = HTTPError 404 then Inr False else Inl e)"
  by (simp add: is_compat_cases)

lemma is_compat_host: "is_compat host_env h = Inr True"
  by (simp add: is_compat_cases host_env_def)

subsection \<open>The digest of the empty message\<close>




lemma be32s_pad_Nil: "be32s (sha1_pad []) = 0x80000000 # replicate 15 0"
  by code_simp











subsection \<open>The shape of a digest\<close>







subsection \<open>The digest of a kernel version string\<close>











subsection \<open>The digest of the trimmed kernel version string\<close>











subsection \<open>The host with a kernel version string\<close>

lemma open_rb_read_update_container [simp]:
  "inside_container (env \<lparr> open_rb_read := r \<rparr>) = inside_container env"
  by (simp add: inside_container_def inside_vz_container_def inside_lxc_container_def)

lemma open_rb_read_update_distro [simp]:
  "get_distro_info (env \<lparr> open_rb_read := r \<rparr>) = get_distro_info env"
  by (simp add: get_distro_info_def Let_def)


section \<open>The claims\<close>

text \<open>
  C1. Container detection never raises: whatever the file system holds, both
  \<^verbatim>\<open>inside_vz_container\<close> and \<^verbatim>\<open>inside_lxc_container\<close> return a boolean, a missing or
  unreadable \<^verbatim>\<open>/proc/1/cgroup\<close> counting as no marker. The code does not do that for
  \<^verbatim>\<open>inside_lxc_container\<close>: on a host without \<^verbatim>\<open>/proc/1/cgroup\<close> the error of \<^verbatim>\<open>open\<close>
  leaves the function, and leaves \<^verbatim>\<open>main\<close> with nothing printed and no exit code
  returned.
\<close>

theorem inside_lxc_container_raises:
  "\<not> inside_vz_container no_cgroup_env \<and>
   inside_lxc_container no_cgroup_env = Inl (OSError ''No such file or directory'') \<and>
   main no_cgroup_env [''kc-compat.py''] = ([], Inl (OSError ''No such file or directory''))"
  by (simp add: main_def inside_container_def inside_vz_container_def inside_lxc_container_def
      no_cgroup_env_def host_env_def)

text \<open>
  C2. For every run of \<^verbatim>\<open>main\<close> the exit code returned is 2 when a container is
  detected, before any remote check; and, when the remote check is reached, 0 when
  it reports compatible, 1 when it reports incompatible (404), 3 on an HTTP error or
  a transport error, 4 on a local I/O error during the check, and 5 on any other
  exception of the check.
\<close>

theorem main_exit_codes:
  "(inside_container env = Inr True \<longrightarrow> snd (main env argv) = Inr 2) \<and>
   (inside_container env = Inr False \<and> read_version_data env = Inr vd \<and>
    get_distro_info env = Inr di \<longrightarrow>
      snd (main env argv) =
        (case is_compat env (get_kernel_hash_from_data vd) of
           Inr True \<Rightarrow> Inr 0
         | Inr False \<Rightarrow> Inr 1
         | Inl (HTTPError code) \<Rightarrow> Inr 3
         | Inl (URLError reason) \<Rightarrow> Inr 3
         | Inl (OSError msg) \<Rightarrow> Inr 4
         | Inl (OtherException msg) \<Rightarrow> Inr 5))"
proof (intro conjI impI)
  assume "inside_container env = Inr True"
  then show "snd (main env argv) = Inr 2" by (simp add: main_container)
next
  assume a: "inside_container env = Inr False \<and> read_version_data env = Inr vd \<and>
    get_distro_info env = Inr di"
  obtain dn dv where "di = (dn, dv)" by (cases di)
  with a show "snd (main env argv) =
        (case is_compat env (get_kernel_hash_from_data vd) of
           Inr True \<Rightarrow> Inr 0
         | Inr False \<Rightarrow> Inr 1
         | Inl (HTTPError code) \<Rightarrow> Inr 3
         | Inl (URLError reason) \<Rightarrow> Inr 3
         | Inl (OSError msg) \<Rightarrow> Inr 4
         | Inl (OtherException msg) \<Rightarrow> Inr 5)"
    by (simp add: main_check check_and_print_code split: sum.splits exn.splits bool.splits)
qed

theorem main_exit_codes_witness:
  "snd (main vz_guest [''kc-compat.py'']) = Inr 2 \<and>
   snd (main lxc_guest [''kc-compat.py'']) = Inr 2 \<and>
   snd (main host_env [''kc-compat.py'']) = Inr 0 \<and>
   snd (main host_404 [''kc-compat.py'']) = Inr 1 \<and>
   snd (main host_500 [''kc-compat.py'']) = Inr 3 \<and>
   snd (main host_unreachable [''kc-compat.py'']) = Inr 3 \<and>
   snd (main host_io_error [''kc-compat.py'']) = Inr 4 \<and>
   snd (main host_unexpected [''kc-compat.py'']) = Inr 5"
  using main_exit_codes [of vz_guest "[''kc-compat.py'']"]
    main_exit_codes [of lxc_guest "[''kc-compat.py'']"]
    main_exit_codes [of host_env "[''kc-compat.py'']" "[]" "(Some ''centos'', Some ''7'')"]
    main_exit_codes [of host_404 "[''kc-compat.py'']" "[]" "(Some ''centos'', Some ''7'')"]
    main_exit_codes [of host_500 "[''kc-compat.py'']" "[]" "(Some ''centos'', Some ''7'')"]
    main_exit_codes [of host_unreachable "[''kc-compat.py'']" "[]" "(Some ''centos'', Some ''7'')"]
    main_exit_codes [of host_io_error "[''kc-compat.py'']" "[]" "(Some ''centos'', Some ''7'')"]
    main_exit_codes [of host_unexpected "[''kc-compat.py'']" "[]" "(Some ''centos'', Some ''7'')"]
  by (simp add: vz_guest_in_container lxc_guest_in_container host_not_in_container
      host_version_data host_distro_info is_compat_host is_compat_const
      host_404_def host_500_def host_unreachable_def host_io_error_def host_unexpected_def)

text \<open>
  C3. For every kernel hash, \<^verbatim>\<open>is_compat\<close> returns true on any response that is not an
  error, returns false exactly when the response is HTTP 404, and hands every other
  HTTP status and every transport failure on to the caller as the error it is, the
  status code or the reason still in it.
\<close>

theorem is_compat_verdict_or_error:
  "(urlopen env (''http://patches.kernelcare.com/'' @ h @ ''/version'') = Inr r
      \<longrightarrow> is_compat env h = Inr True) \<and>
   (is_compat env h = Inr False \<longleftrightarrow>
      urlopen env (''http://patches.kernelcare.com/'' @ h @ ''/version'') = Inl (HTTPError 404)) \<and>
   (urlopen env (''http://patches.kernelcare.com/'' @ h @ ''/version'') = Inl (HTTPError code)
      \<and> code \<noteq> 404 \<longrightarrow> is_compat env h = Inl (HTTPError code)) \<and>
   (urlopen env (''http://patches.kernelcare.com/'' @ h @ ''/version'') = Inl (URLError reason)
      \<longrightarrow> is_compat env h = Inl (URLError reason)) \<and>
   (urlopen env (''http://patches.kernelcare.com/'' @ h @ ''/version'') = Inl e
      \<and> e \<noteq> HTTPError 404 \<longrightarrow> is_compat env h = Inl e)"
  by (auto simp: is_compat_cases split: sum.splits if_splits)

theorem is_compat_verdict_or_error_witness:
  "is_compat host_env ''abcdef123456'' = Inr True \<and>
   is_compat host_404 ''abcdef123456'' = Inr False \<and>
   is_compat host_500 ''abcdef123456'' = Inl (HTTPError 500) \<and>
   is_compat host_unreachable ''abcdef123456'' = Inl (URLError ''Connection refused'') \<and>
   is_compat host_io_error ''abcdef123456'' = Inl (OSError ''Disk error'')"
  using is_compat_verdict_or_error [of host_env "''abcdef123456''" "()"]
    is_compat_verdict_or_error [of host_404 "''abcdef123456''"]
    is_compat_verdict_or_error [of host_500 "''abcdef123456''" _ 500]
    is_compat_verdict_or_error [of host_unreachable "''abcdef123456''" _ _ "''Connection refused''"]
    is_compat_verdict_or_error [of host_io_error "''abcdef123456''" _ _ _ "OSError ''Disk error''"]
  by (simp add: host_env_def host_404_def host_500_def host_unreachable_def host_io_error_def)

text \<open>
  C4. For every content of the OS-release file, \<^verbatim>\<open>get_distro_info\<close> returns (absent,
  absent) when the file is missing or a read error occurs; otherwise the name comes
  from the lines beginning with \<^verbatim>\<open>ID=\<close> and the version from the lines beginning with
  \<^verbatim>\<open>VERSION_ID=\<close>, each value trimmed of white space and stripped of a single layer of
  enclosing single or double quotes, the last matching line winning. Two parts fail
  on the code. \<^verbatim>\<open>strip\<close> with a set of characters removes every leading and trailing
  quote, so a value in two layers of quotes loses both. And the handler catches
  \<^verbatim>\<open>IOError\<close> and \<^verbatim>\<open>OSError\<close> only: when the file does not decode, the error of the
  read is neither, and it leaves the function.
\<close>

theorem get_distro_info_counterexample:
  "get_distro_info doubly_quoted_release = Inr (Some ''centos'', None) \<and>
   spec_unquote_one_layer ([CHR 0x22, CHR 0x22] @ ''centos'' @ [CHR 0x22, CHR 0x22]) =
     [CHR 0x22] @ ''centos'' @ [CHR 0x22] \<and>
   get_distro_info doubly_quoted_release \<noteq>
     Inr (Some (spec_unquote_one_layer ([CHR 0x22, CHR 0x22] @ ''centos'' @ [CHR 0x22, CHR 0x22])),
          None) \<and>
   path_exists undecodable_release ''/etc/os-release'' \<and>
   get_distro_info undecodable_release =
     Inl (OtherException
            ([CHR 0x27] @ ''utf-8'' @ [CHR 0x27] @ '' codec can'' @ [CHR 0x27] @
             ''t decode byte 0xff in position 0: invalid start byte'')) \<and>
   get_distro_info undecodable_release \<noteq> Inr (None, None)"
  by (simp add: get_distro_info_def doubly_quoted_release_def undecodable_release_def
      release_env_def host_env_def
      except_OSError_def startswith_def parse_value_def index_def split_eq1_def py_strip_def
      strip_quotes_def strip_where_def py_isspace_def is_quote_def spec_unquote_one_layer_def)

text \<open>
  C4 as the code has it: (absent, absent) when the file does not exist, or when
  opening or reading it raises an \<^verbatim>\<open>IOError\<close> or \<^verbatim>\<open>OSError\<close>; and when the file is opened
  and read to its end with no exception, the name is the value of the last line
  that, once trimmed, begins with \<^verbatim>\<open>ID=\<close> and the version that of the last line that
  begins with \<^verbatim>\<open>VERSION_ID=\<close>, a value being trimmed of white space and then of every
  leading and trailing single or double quote. A read that raises another
  exception is left out.
\<close>

theorem get_distro_info_result:
  "(\<not> path_exists env ''/etc/os-release'' \<longrightarrow> get_distro_info env = Inr (None, None)) \<and>
   (path_exists env ''/etc/os-release'' \<and> open_text env ''/etc/os-release'' = Inl e \<and>
    isinstance_OSError e \<longrightarrow> get_distro_info env = Inr (None, None)) \<and>
   (path_exists env ''/etc/os-release'' \<and>
    open_text env ''/etc/os-release'' = Inr (TextFile ls (Some e)) \<and>
    isinstance_OSError e \<longrightarrow> get_distro_info env = Inr (None, None)) \<and>
   (path_exists env ''/etc/os-release'' \<and>
    open_text env ''/etc/os-release'' = Inr (TextFile ls None) \<longrightarrow>
      get_distro_info env = Inr (last_value ''ID='' ls, last_value ''VERSION_ID='' ls))"
proof (intro conjI impI)
  assume "\<not> path_exists env ''/etc/os-release''"
  then show "get_distro_info env = Inr (None, None)"
    by (simp add: get_distro_info_def)
next
  assume "path_exists env ''/etc/os-release'' \<and> open_text env ''/etc/os-release'' = Inl e \<and>
    isinstance_OSError e"
  then show "get_distro_info env = Inr (None, None)"
    by (simp add: get_distro_info_def except_OSError_def)
next
  assume "path_exists env ''/etc/os-release'' \<and>
    open_text env ''/etc/os-release'' = Inr (TextFile ls (Some e)) \<and> isinstance_OSError e"
  then show "get_distro_info env = Inr (None, None)"
    by (simp add: get_distro_info_def except_OSError_def scan_lines_last_value)
next
  assume "path_exists env ''/etc/os-release'' \<and>
    open_text env ''/etc/os-release'' = Inr (TextFile ls None)"
  then show "get_distro_info env = Inr (last_value ''ID='' ls, last_value ''VERSION_ID='' ls)"
    by (simp add: get_distro_info_def except_OSError_def scan_lines_last_value
        split: option.split)
qed

theorem get_distro_info_result_witness:
  "get_distro_info vz_guest = Inr (None, None) \<and>
   get_distro_info unreadable_release = Inr (None, None) \<and>
   get_distro_info failing_release = Inr (None, None) \<and>
   get_distro_info host_env = Inr (Some ''centos'', Some ''7'') \<and>
   get_distro_info repeated_release = Inr (Some ''ubuntu'', Some ''12'')"
proof -
  have "get_distro_info vz_guest = Inr (None, None)"
    using get_distro_info_result [of vz_guest]
    by (simp add: vz_guest_def host_env_def)
  moreover have "get_distro_info unreadable_release = Inr (None, None)"
    using get_distro_info_result [of unreadable_release "OSError ''Permission denied''"]
    by (simp add: unreadable_release_def release_env_def host_env_def)
  moreover have "get_distro_info failing_release = Inr (None, None)"
    using get_distro_info_result
      [of failing_release "OSError ''Input/output error''" "[''ID=debian'' @ [CHR 0x0A]]"]
    by (simp add: failing_release_def release_env_def host_env_def)
  moreover have "get_distro_info host_env = Inr (Some ''centos'', Some ''7'')"
    using get_distro_info_result
      [of host_env _ "[''ID=centos'' @ [CHR 0x0A],
                       ''VERSION_ID='' @ [CHR 0x22] @ ''7'' @ [CHR 0x22, CHR 0x0A]]"]
    by (simp add: host_env_def host_files_def last_value_def startswith_def py_strip_def
        strip_quotes_def strip_where_def py_isspace_def is_quote_def)
  moreover have "get_distro_info repeated_release = Inr (Some ''ubuntu'', Some ''12'')"
    using get_distro_info_result
      [of repeated_release _
          "[''ID=debian'' @ [CHR 0x0A],
            ''  VERSION_ID= '' @ [CHR 0x27] @ ''12'' @ [CHR 0x27, CHR 0x0A],
            ''ID=ubuntu'' @ [CHR 0x0A]]"]
    by (simp add: repeated_release_def release_env_def host_env_def last_value_def
        startswith_def py_strip_def strip_quotes_def strip_where_def py_isspace_def
        is_quote_def)
  ultimately show ?thesis by simp
qed



text \<open>
  C6. For every pair of runs of \<^verbatim>\<open>main\<close> that differ only in the silent flag, in the
  same environment, the exit code is the same, and the silent run prints nothing at
  all, the report block included.
\<close>

theorem silent_changes_output_only:
  assumes "silent_flag a" and "\<not> silent_flag b" and "report_flag b = report_flag a"
  shows "snd (main env a) = snd (main env b) \<and> fst (main env a) = []"
  using assms main_exit_any_argv [of env a b] main_silent_prints_nothing [of a env] by simp

theorem silent_changes_output_only_witness:
  "silent_flag [''kc-compat.py'', ''--silent''] \<and> \<not> silent_flag [''kc-compat.py''] \<and>
   report_flag [''kc-compat.py''] = report_flag [''kc-compat.py'', ''--silent''] \<and>
   snd (main host_404 [''kc-compat.py'', ''--silent'']) = snd (main host_404 [''kc-compat.py'']) \<and>
   fst (main host_404 [''kc-compat.py'', ''--silent'']) = []"
proof -
  have s: "silent_flag [''kc-compat.py'', ''--silent'']" by (simp add: silent_flag_def)
  have n: "\<not> silent_flag [''kc-compat.py'']" by (simp add: silent_flag_def)
  have r: "report_flag [''kc-compat.py''] = report_flag [''kc-compat.py'', ''--silent'']"
    by (simp add: report_flag_def)
  from silent_changes_output_only [OF s n r, of host_404] s n r show ?thesis by simp
qed

text \<open>
  C7. For every run of \<^verbatim>\<open>main\<close> outside a container with the report flag set, exactly
  seven lines are printed in a fixed order (header, kernel hash, distribution or
  \<^verbatim>\<open>Unknown\<close>, version or \<^verbatim>\<open>Unknown\<close>, decoded kernel string, footer, verdict) before
  the exit code is decided as usual; the report flag does not end the run before
  the compatibility check. The count fails on the code: when the check reports
  incompatible, the verdict is two lines and eight lines are printed.
\<close>

theorem report_run_prints_eight_lines:
  "report_flag [''kc-compat.py'', ''--report''] \<and>
   inside_container host_404 = Inr False \<and>
   fst (main host_404 [''kc-compat.py'', ''--report'']) =
     [''=== KernelCare Compatibility Report ==='',
      ''Kernel Hash: '' @ get_kernel_hash_from_data [],
      ''Distribution: centos'',
      ''Version: 7'',
      ''Kernel: '',
      ''====================================='',
      ''NEEDS REVIEW'',
      support_message_supported] \<and>
   length (fst (main host_404 [''kc-compat.py'', ''--report''])) \<noteq> 7"
proof -
  have r: "report_flag [''kc-compat.py'', ''--report'']" by (simp add: report_flag_def)
  have c: "inside_container host_404 = Inr False"
    by (simp add: host_404_def host_not_in_container)
  have v: "read_version_data host_404 = Inr []"
    by (simp add: host_404_def host_version_data)
  have d: "get_distro_info host_404 = Inr (Some ''centos'', Some ''7'')"
    by (simp add: host_404_def host_distro_info)
  have n: "name_and_supported (Some ''centos'')"
    by (simp add: name_and_supported_iff SUPPORTED_DISTROS_def)
  have i: "is_compat host_404 h = Inr False" for h
    by (simp add: host_404_def is_compat_const)
  have k: "decode_utf8_replace host_404 [] = []"
    by (simp add: host_404_def host_env_def)
  have "fst (main host_404 [''kc-compat.py'', ''--report'']) =
     [''=== KernelCare Compatibility Report ==='',
      ''Kernel Hash: '' @ get_kernel_hash_from_data [],
      ''Distribution: centos'',
      ''Version: 7'',
      ''Kernel: '',
      ''====================================='',
      ''NEEDS REVIEW'',
      support_message_supported]"
    using r report_flag_not_silent [OF r] n
    by (simp add: main_check [OF c v d] check_and_print_lines i report_block_def k
        py_strip_def strip_where_def)
  with r c show ?thesis by simp
qed

text \<open>
  C7 as the code has it: the six lines of the report block in their fixed order,
  then the verdict, which is one line when the check reports compatible or fails
  and two lines (\<^verbatim>\<open>NEEDS REVIEW\<close> and a support message) when it reports incompatible:
  seven lines, or eight after a 404. The exit code is that of the run without the
  report flag.
\<close>

theorem report_run_output:
  assumes "report_flag argv"
    and "inside_container env = Inr False"
    and "read_version_data env = Inr version_data"
    and "get_distro_info env = Inr (distro_name, distro_version)"
  shows "fst (main env argv) =
      [''=== KernelCare Compatibility Report ==='',
       ''Kernel Hash: '' @ get_kernel_hash_from_data version_data,
       ''Distribution: '' @ or_else distro_name ''Unknown'',
       ''Version: '' @ or_else distro_version ''Unknown'',
       ''Kernel: '' @ py_strip (decode_utf8_replace env version_data),
       ''=====================================''] @
      (case is_compat env (get_kernel_hash_from_data version_data) of
         Inr True \<Rightarrow> [''COMPATIBLE'']
       | Inr False \<Rightarrow>
           [''NEEDS REVIEW'',
            if name_and_supported distro_name then support_message_supported
            else support_message_generic]
       | Inl (HTTPError code) \<Rightarrow> [''CONNECTION ERROR; HTTP '' @ format_d code]
       | Inl (URLError reason) \<Rightarrow> [''CONNECTION ERROR; '' @ reason]
       | Inl (OSError msg) \<Rightarrow> [''SYSTEM ERROR; '' @ msg]
       | Inl (OtherException msg) \<Rightarrow> [''UNEXPECTED ERROR; '' @ msg]) \<and>
    length (fst (main env argv)) =
      (if is_compat env (get_kernel_hash_from_data version_data) = Inr False then 8 else 7) \<and>
    snd (main env argv) = snd (main env [])"
proof -
  have s: "\<not> silent_flag argv"
    using assms(1) by (rule report_flag_not_silent)
  have out: "fst (main env argv) =
      [''=== KernelCare Compatibility Report ==='',
       ''Kernel Hash: '' @ get_kernel_hash_from_data version_data,
       ''Distribution: '' @ or_else distro_name ''Unknown'',
       ''Version: '' @ or_else distro_version ''Unknown'',
       ''Kernel: '' @ py_strip (decode_utf8_replace env version_data),
       ''=====================================''] @
      (case is_compat env (get_kernel_hash_from_data version_data) of
         Inr True \<Rightarrow> [''COMPATIBLE'']
       | Inr False \<Rightarrow>
           [''NEEDS REVIEW'',
            if name_and_supported distro_name then support_message_supported
            else support_message_generic]
       | Inl (HTTPError code) \<Rightarrow> [''CONNECTION ERROR; HTTP '' @ format_d code]
       | Inl (URLError reason) \<Rightarrow> [''CONNECTION ERROR; '' @ reason]
       | Inl (OSError msg) \<Rightarrow> [''SYSTEM ERROR; '' @ msg]
       | Inl (OtherException msg) \<Rightarrow> [''UNEXPECTED ERROR; '' @ msg])"
    using assms(1) s
    by (simp add: main_check [OF assms(2-4)] check_and_print_lines report_block_def)
  have len: "length (fst (main env argv)) =
      (if is_compat env (get_kernel_hash_from_data version_data) = Inr False then 8 else 7)"
    unfolding out by (simp split: sum.splits exn.splits bool.splits)
  from out len main_exit_any_argv [of env argv "[]"] show ?thesis by simp
qed

theorem report_run_output_witness:
  "report_flag [''kc-compat.py'', ''--report''] \<and>
   inside_container host_env = Inr False \<and>
   read_version_data host_env = Inr [] \<and>
   get_distro_info host_env = Inr (Some ''centos'', Some ''7'') \<and>
   fst (main host_env [''kc-compat.py'', ''--report'']) =
     [''=== KernelCare Compatibility Report ==='',
      ''Kernel Hash: '' @ get_kernel_hash_from_data [],
      ''Distribution: centos'',
      ''Version: 7'',
      ''Kernel: '',
      ''====================================='',
      ''COMPATIBLE''] \<and>
   length (fst (main host_env [''kc-compat.py'', ''--report''])) = 7 \<and>
   snd (main host_env [''kc-compat.py'', ''--report'']) = snd (main host_env [])"
proof -
  have r: "report_flag [''kc-compat.py'', ''--report'']" by (simp add: report_flag_def)
  have k: "decode_utf8_replace host_env [] = []" by (simp add: host_env_def)
  from report_run_output [OF r host_not_in_container host_version_data host_distro_info]
    r host_not_in_container host_version_data host_distro_info
  show ?thesis
    by (simp add: is_compat_host k py_strip_def strip_where_def)
qed

text \<open>
  C8. For every run of \<^verbatim>\<open>main\<close> outside a container in which the remote check
  reports incompatible (404), the program prints \<^verbatim>\<open>NEEDS REVIEW\<close> and one support
  message, chosen by whether the detected distribution name is in the fixed list of
  supported distributions (an absent or unknown name selects the general message),
  and returns exit code 1 either way. Printing is through \<^verbatim>\<open>myprint\<close>, as everywhere
  after the report block: the two lines are printed, or with the silent flag
  suppressed, and they follow the report block when the report flag is set.
\<close>

theorem needs_review_output:
  assumes "inside_container env = Inr False"
    and "read_version_data env = Inr version_data"
    and "get_distro_info env = Inr (distro_name, distro_version)"
    and "is_compat env (get_kernel_hash_from_data version_data) = Inr False"
  shows "snd (main env argv) = Inr 1 \<and>
    fst (main env argv) =
      (if report_flag argv
       then report_block env (get_kernel_hash_from_data version_data) distro_name
              distro_version version_data
       else []) @
      (if silent_flag argv then []
       else [''NEEDS REVIEW'',
             case distro_name of
               None \<Rightarrow> support_message_generic
             | Some name \<Rightarrow>
                 if name \<in> SUPPORTED_DISTROS then support_message_supported
                 else support_message_generic])"
  using assms(4)
  by (simp add: main_check [OF assms(1-3)] check_and_print_lines check_and_print_code
      name_and_supported_iff split: option.split)

theorem needs_review_output_witness:
  "inside_container host_404 = Inr False \<and>
   read_version_data host_404 = Inr [] \<and>
   get_distro_info host_404 = Inr (Some ''centos'', Some ''7'') \<and>
   is_compat host_404 (get_kernel_hash_from_data []) = Inr False \<and>
   main host_404 [''kc-compat.py''] = ([''NEEDS REVIEW'', support_message_supported], Inr 1) \<and>
   main host_404 [''kc-compat.py'', ''--silent''] = ([], Inr 1) \<and>
   get_distro_info gentoo_404 = Inr (Some ''gentoo'', None) \<and>
   main gentoo_404 [''kc-compat.py''] = ([''NEEDS REVIEW'', support_message_generic], Inr 1) \<and>
   get_distro_info nameless_404 = Inr (None, None) \<and>
   main nameless_404 [''kc-compat.py''] = ([''NEEDS REVIEW'', support_message_generic], Inr 1) \<and>
   support_message_supported \<noteq> support_message_generic"
proof -
  have c: "inside_container host_404 = Inr False"
    by (simp add: host_404_def host_not_in_container)
  have v: "read_version_data host_404 = Inr []"
    by (simp add: host_404_def host_version_data)
  have d: "get_distro_info host_404 = Inr (Some ''centos'', Some ''7'')"
    by (simp add: host_404_def host_distro_info)
  have i: "is_compat host_404 (get_kernel_hash_from_data []) = Inr False"
    by (simp add: host_404_def is_compat_const)
  have cg: "inside_container gentoo_404 = Inr False"
    by (simp add: gentoo_404_def release_env_def inside_container_def inside_vz_container_def
        inside_lxc_container_def host_env_def host_files_def startswith_def)
  have vg: "read_version_data gentoo_404 = Inr []"
    by (simp add: gentoo_404_def release_env_def read_version_data_def host_env_def
        except_OSError_def)
  have dg: "get_distro_info gentoo_404 = Inr (Some ''gentoo'', None)"
    by (simp add: gentoo_404_def release_env_def get_distro_info_def host_env_def
        except_OSError_def startswith_def parse_value_def index_def split_eq1_def
        py_strip_def strip_quotes_def strip_where_def py_isspace_def is_quote_def)
  have ig: "is_compat gentoo_404 (get_kernel_hash_from_data []) = Inr False"
    by (simp add: gentoo_404_def is_compat_const)
  have cn: "inside_container nameless_404 = Inr False"
    by (simp add: nameless_404_def host_404_def inside_container_def inside_vz_container_def
        inside_lxc_container_def host_env_def host_files_def startswith_def)
  have vn: "read_version_data nameless_404 = Inr []"
    by (simp add: nameless_404_def host_404_def read_version_data_def host_env_def
        except_OSError_def)
  have dn: "get_distro_info nameless_404 = Inr (None, None)"
    by (simp add: nameless_404_def get_distro_info_def)
  have "is_compat nameless_404 (get_kernel_hash_from_data []) = Inr False"
    by (simp add: nameless_404_def host_404_def is_compat_cases)
  note n = this
  have 1: "main host_404 [''kc-compat.py''] =
      ([''NEEDS REVIEW'', support_message_supported], Inr 1)"
    using needs_review_output [OF c v d i, of "[''kc-compat.py'']"]
    by (simp add: prod_eq_iff silent_flag_def report_flag_def SUPPORTED_DISTROS_def)
  have 2: "main host_404 [''kc-compat.py'', ''--silent''] = ([], Inr 1)"
    using needs_review_output [OF c v d i, of "[''kc-compat.py'', ''--silent'']"]
    by (simp add: prod_eq_iff silent_flag_def report_flag_def)
  have 3: "main gentoo_404 [''kc-compat.py''] =
      ([''NEEDS REVIEW'', support_message_generic], Inr 1)"
    using needs_review_output [OF cg vg dg ig, of "[''kc-compat.py'']"]
    by (simp add: prod_eq_iff silent_flag_def report_flag_def SUPPORTED_DISTROS_def)
  have 4: "main nameless_404 [''kc-compat.py''] =
      ([''NEEDS REVIEW'', support_message_generic], Inr 1)"
    using needs_review_output [OF cn vn dn n, of "[''kc-compat.py'']"]
    by (simp add: prod_eq_iff silent_flag_def report_flag_def)
  have 5: "support_message_supported \<noteq> support_message_generic"
    by (simp add: support_message_supported_def support_message_generic_def)
  from c v d i 1 2 dg 3 dn 4 5 show ?thesis by simp
qed

text \<open>
  C9. For every combination of existence of the two Virtuozzo marker files,
  \<^verbatim>\<open>inside_vz_container\<close> is true iff \<^verbatim>\<open>/proc/vz/veinfo\<close> exists and
  \<^verbatim>\<open>/proc/vz/version\<close> does not: (veinfo, no version) gives true, (neither) gives false,
  (both) gives false.
\<close>

theorem inside_vz_container_truth_table:
  "(inside_vz_container env \<longleftrightarrow>
      path_exists env ''/proc/vz/veinfo'' \<and> \<not> path_exists env ''/proc/vz/version'') \<and>
   (path_exists env ''/proc/vz/veinfo'' \<and> \<not> path_exists env ''/proc/vz/version''
      \<longrightarrow> inside_vz_container env) \<and>
   (\<not> path_exists env ''/proc/vz/veinfo'' \<and> \<not> path_exists env ''/proc/vz/version''
      \<longrightarrow> \<not> inside_vz_container env) \<and>
   (path_exists env ''/proc/vz/veinfo'' \<and> path_exists env ''/proc/vz/version''
      \<longrightarrow> \<not> inside_vz_container env)"
  by (simp add: inside_vz_container_def)

theorem inside_vz_container_truth_table_witness:
  "inside_vz_container vz_guest \<and> \<not> inside_vz_container host_env \<and>
   \<not> inside_vz_container vz_node"
  using inside_vz_container_truth_table [of vz_guest]
    inside_vz_container_truth_table [of host_env]
    inside_vz_container_truth_table [of vz_node]
  by (simp add: vz_guest_def vz_node_def host_env_def)

text \<open>
  C10. For every argument vector the silent flag and the report flag are never both
  set: both are computed from the first positional argument alone, which matches at
  most one of \<^verbatim>\<open>--silent\<close>, \<^verbatim>\<open>-q\<close> and \<^verbatim>\<open>--report\<close>; so a silent run prints no report
  block.
\<close>

theorem flags_never_both:
  "\<not> (silent_flag argv \<and> report_flag argv) \<and>
   silent_flag argv =
     (case argv of prog # a # rest \<Rightarrow> a = ''--silent'' \<or> a = ''-q'' | _ \<Rightarrow> False) \<and>
   report_flag argv = (case argv of prog # a # rest \<Rightarrow> a = ''--report'' | _ \<Rightarrow> False) \<and>
   (silent_flag argv \<longrightarrow> fst (main env argv) = [])"
proof -
  have "\<not> (silent_flag argv \<and> report_flag argv)"
    using flags_not_both by blast
  moreover have "silent_flag argv =
      (case argv of prog # a # rest \<Rightarrow> a = ''--silent'' \<or> a = ''-q'' | _ \<Rightarrow> False)"
    by (cases argv; cases "tl argv") (auto simp: silent_flag_def)
  moreover have "report_flag argv =
      (case argv of prog # a # rest \<Rightarrow> a = ''--report'' | _ \<Rightarrow> False)"
    by (cases argv; cases "tl argv") (auto simp: report_flag_def)
  ultimately show ?thesis
    using main_silent_prints_nothing by blast
qed

theorem flags_never_both_witness:
  "silent_flag [''kc-compat.py'', ''-q''] \<and> \<not> report_flag [''kc-compat.py'', ''-q''] \<and>
   fst (main host_404 [''kc-compat.py'', ''-q'']) = []"
  using flags_never_both [of "[''kc-compat.py'', ''-q'']" host_404]
  by simp

end
